theory Spec2Isabelle
  imports Main "HOL-Library.AList"
begin

section \<open>Python values and strings\<close>

text \<open>
  The cells that \<^verbatim>\<open>csv.DictReader\<close> hands to \<^verbatim>\<open>convert_row\<close> are either a
  \<^verbatim>\<open>str\<close> or \<^verbatim>\<open>None\<close> (the reader's \<^verbatim>\<open>restval\<close> for a short line). The surplus
  cells of a long line sit under the key \<^verbatim>\<open>None\<close>, which \<^verbatim>\<open>convert_row\<close> never reads,
  so a row is a map from column names to such cells. Strings are HOL strings read as ASCII
  text: the whitespace and letter tables below are those of Python's \<^verbatim>\<open>str.isspace\<close>
  and \<^verbatim>\<open>str.upper\<close> on the code points below 128.

  The one exception of the script is \<^verbatim>\<open>decimal.InvalidOperation\<close>. The one piece of
  state that \<^verbatim>\<open>convert_row\<close> writes is the flag set of the decimal context: every
  function below that can reach it takes the flags and returns them with its result.
\<close>

datatype pyval = PNone | PStr string

datatype error = InvalidOperation

datatype signal = SigInvalidOperation | SigInexact | SigRounded

type_synonym flags = "signal set"

definition py_str :: "pyval \<Rightarrow> string" where
  "py_str v = (case v of PNone \<Rightarrow> ''None'' | PStr s \<Rightarrow> s)"

definition py_or_empty :: "pyval \<Rightarrow> string" where
  \<comment> \<open>\<^verbatim>\<open>(x or "")\<close>: \<^verbatim>\<open>None\<close> and the empty string are falsy.\<close>
  "py_or_empty v = (case v of PNone \<Rightarrow> '''' | PStr s \<Rightarrow> s)"

definition py_isspace :: "char \<Rightarrow> bool" where
  "py_isspace c \<longleftrightarrow>
     c \<in> set [CHR 0x09, CHR 0x0A, CHR 0x0B, CHR 0x0C, CHR 0x0D,
               CHR 0x1C, CHR 0x1D, CHR 0x1E, CHR 0x1F, CHR 0x20]"

definition str_lstrip :: "string \<Rightarrow> string" where
  "str_lstrip s = dropWhile py_isspace s"

definition str_rstrip :: "string \<Rightarrow> string" where
  "str_rstrip s = rev (dropWhile py_isspace (rev s))"

definition str_strip :: "string \<Rightarrow> string" where
  "str_strip s = str_rstrip (str_lstrip s)"

definition ascii_lowercase :: string where
  "ascii_lowercase = ''abcdefghijklmnopqrstuvwxyz''"

definition ascii_uppercase :: string where
  "ascii_uppercase = ''ABCDEFGHIJKLMNOPQRSTUVWXYZ''"

definition char_upper :: "char \<Rightarrow> char" where
  "char_upper c =
     (case map_of (zip ascii_lowercase ascii_uppercase) c of Some u \<Rightarrow> u | None \<Rightarrow> c)"

definition str_upper :: "string \<Rightarrow> string" where
  "str_upper s = map char_upper s"

definition startswith :: "string \<Rightarrow> string \<Rightarrow> bool" where
  "startswith s p \<longleftrightarrow> take (length p) s = p"

section \<open>The static tables\<close>

definition edition_code_items :: "(string \<times> string) list" where
  "edition_code_items =
    [(''PLST'', ''PLIST''),
     (''3ED'', ''3E''),
     (''F11'', ''FNMP''),
     (''MIR'', ''MI''),
     (''ICE'', ''IA''),
     (''ULG'', ''GU'')]"

definition edition_code_map :: "string \<rightharpoonup> string" where
  "edition_code_map = map_of edition_code_items"

definition edition_items :: "(string \<times> string) list" where
  "edition_items =
    [(''ISD'', ''Innistrad''),
     (''INR'', ''Innistrad Remastered''),
     (''CMM'', ''Commander Masters''),
     (''BLC'', ''Bloomburrow Commander''),
     (''TDM'', ''Tarkir: Dragonstorm''),
     (''OTC'', ''Outlaws of Thunder Junction Commander''),
     (''MH3'', ''Modern Horizons 3''),
     (''M13'', ''Magic 2013''),
     (''DSK'', ''Duskmourn: House of Horror''),
     (''EOE'', ''Edge of Eternities''),
     (''M3C'', ''Modern Horizons 3 Commander''),
     (''TDC'', ''Tarkir: Dragonstorm Commander''),
     (''AVR'', ''Avacyn Restored''),
     (''MRD'', ''Mirrodin''),
     (''LTR'', ''The Lord of the Rings: Tales of Middle-earth''),
     (''ONE'', ''Phyrexia: All Will Be One''),
     (''MKC'', ''Murders at Karlov Manor Commander''),
     (''BLB'', ''Bloomburrow''),
     (''EOC'', ''Edge of Eternities Commander''),
     (''LTC'', ''The Lord of the Rings: Tales of Middle-earth Commander''),
     (''C20'', ''Commander 2020''),
     (''SLD'', ''Secret Lair Drop Series''),
     (''DKA'', ''Dark Ascension''),
     (''LCC'', ''The Lost Caverns of Ixalan Commander''),
     (''EOS'', ''Edge of Eternities: Stellar Sights''),
     (''FDN'', ''Foundations''),
     (''CLU'', ''Ravnica: Clue Edition''),
     (''SCG'', ''Scourge''),
     (''3ED'', ''Revised Edition''),
     (''PLST'', ''The List''),
     (''C21'', ''Commander 2021''),
     (''M14'', ''Magic 2014 Core Set''),
     (''M12'', ''Magic 2012''),
     (''2X2'', ''Double Masters 2022''),
     (''FNMP'', ''Friday Night Magic''),
     (''DOM'', ''Dominaria''),
     (''DSC'', ''Duskmourn: House of Horror Commander''),
     (''AKH'', ''Amonkhet''),
     (''SOM'', ''Scars of Mirrodin''),
     (''SPG'', ''Special Guests''),
     (''RVR'', ''Ravnica Remastered''),
     (''C13'', ''Commander 2013''),
     (''TOR'', ''Torment''),
     (''DIS'', ''Dissension''),
     (''OGW'', ''Oath of the Gatewatch''),
     (''MBS'', ''Mirrodin Besieged''),
     (''MH2'', ''Modern Horizons 2''),
     (''HOU'', ''Hour of Devastation''),
     (''BRR'', ''The Brothers' War Retro Artifacts''),
     (''40K'', ''Warhammer 40,000''),
     (''MH1'', ''Modern Horizons''),
     (''SCD'', ''Starter Commander Decks''),
     (''2XM'', ''Double Masters''),
     (''F11'', ''Friday Night Magic''),
     (''MIR'', ''Mirage''),
     (''ICE'', ''Ice Age''),
     (''ULG'', ''Urza's Legacy'')]"

definition edition_map :: "string \<rightharpoonup> string" where
  "edition_map = map_of edition_items"

definition output_columns :: "string list" where
  "output_columns =
    [''Count'',
     ''Tradelist Count'',
     ''Name'',
     ''Edition'',
     ''Edition Code'',
     ''Card Number'',
     ''Condition'',
     ''Language'',
     ''Foil'',
     ''Signed'',
     ''Artist Proof'',
     ''Altered Art'',
     ''Misprint'',
     ''Promo'',
     ''Textless'',
     ''Printing Id'',
     ''Printing Note'',
     ''Tags'',
     ''My Price'']"

section \<open>The decimal library, as far as \<^verbatim>\<open>format_price\<close> uses it\<close>

text \<open>
  A \<^verbatim>\<open>Decimal\<close> is a sign, a coefficient and an exponent, or one of the special values.
  The sign is \<open>True\<close> for a negative number. The payload of a NaN is a number, with
  \<open>0\<close> for no payload.
\<close>

datatype decimal =
    Finite bool nat int
  | Infinity bool
  | NaN bool bool nat

definition decimal_digits :: string where
  "decimal_digits = ''0123456789''"

definition is_digit :: "char \<Rightarrow> bool" where
  "is_digit c \<longleftrightarrow> c \<in> set decimal_digits"

definition digit_val :: "char \<Rightarrow> nat" where
  "digit_val c =
     (case map_of (zip decimal_digits [0, 1, 2, 3, 4, 5, 6, 7, 8, 9]) c of
        Some d \<Rightarrow> d | None \<Rightarrow> 0)"

definition nat_of_digits :: "string \<Rightarrow> nat" where
  "nat_of_digits s = foldl (\<lambda>a c. 10 * a + digit_val c) 0 s"

definition digit_char :: "nat \<Rightarrow> char" where
  "digit_char d = decimal_digits ! (d mod 10)"

fun str_nat :: "nat \<Rightarrow> string" where
  "str_nat n = (if n < 10 then [digit_char n] else str_nat (n div 10) @ [digit_char (n mod 10)])"

declare str_nat.simps [simp del]

definition ndigits :: "nat \<Rightarrow> nat" where
  "ndigits n = length (str_nat n)"

definition parse_sign :: "string \<Rightarrow> bool \<times> string" where
  "parse_sign s =
     (case s of
        [] \<Rightarrow> (False, s)
      | c # r \<Rightarrow> if c = CHR ''-'' then (True, r) else if c = CHR ''+'' then (False, r)
                 else (False, s))"

definition is_exp_indicator :: "char \<Rightarrow> bool" where
  "is_exp_indicator c \<longleftrightarrow> c = CHR ''e'' \<or> c = CHR ''E''"

text \<open>
  \<^verbatim>\<open>Decimal(s)\<close> converts exactly, in the widest context of the library (64-bit build):
  the largest adjusted exponent is \<open>EMAX\<close> and the smallest exponent is \<open>ETINY\<close>. The
  library's bound of \<open>EMAX\<close> on the number of digits is left out: no text that long exists.
\<close>

definition EMAX :: int where
  "EMAX = 999999999999999999"

definition ETINY :: int where
  "ETINY = - 1999999999999999997"

definition parse_payload :: "bool \<Rightarrow> bool \<Rightarrow> string \<Rightarrow> decimal option" where
  "parse_payload sg signaling s =
     (if list_all is_digit s then Some (NaN sg signaling (nat_of_digits s)) else None)"

definition parse_exponent :: "string \<Rightarrow> int option" where
  \<comment> \<open>the text after the indicator: an optional sign and at least one digit\<close>
  "parse_exponent s =
     (case parse_sign s of (neg, ds) \<Rightarrow>
        if ds \<noteq> [] \<and> list_all is_digit ds
        then Some (if neg then - int (nat_of_digits ds) else int (nat_of_digits ds))
        else None)"

definition parse_finite :: "bool \<Rightarrow> string \<Rightarrow> decimal option" where
  "parse_finite sg s =
     (let mant = takeWhile (\<lambda>c. \<not> is_exp_indicator c) s;
          rest = dropWhile (\<lambda>c. \<not> is_exp_indicator c) s;
          ip = takeWhile (\<lambda>c. c \<noteq> CHR ''.'') mant;
          fp = drop 1 (dropWhile (\<lambda>c. c \<noteq> CHR ''.'') mant);
          ex = (if rest = [] then Some 0 else parse_exponent (drop 1 rest))
      in if \<not> list_all is_digit ip \<or> \<not> list_all is_digit fp \<or> ip @ fp = [] then None
         else case ex of
                None \<Rightarrow> None
              | Some x \<Rightarrow>
                  let c = nat_of_digits (ip @ fp);
                      e = x - int (length fp)
                  in if e + int (ndigits c) - 1 > EMAX \<or> e < ETINY then None
                     else Some (Finite sg c e))"

definition decimal_of_string :: "string \<Rightarrow> decimal option" where
  \<comment> \<open>The numeric-string syntax of the decimal module. Surrounding whitespace is
      stripped and underscores are removed throughout. A finite value that the widest
      context cannot hold exactly is a conversion error, as a malformed text is.\<close>
  "decimal_of_string s0 =
     (case parse_sign (filter (\<lambda>c. c \<noteq> CHR ''_'') (str_strip s0)) of (sg, s) \<Rightarrow>
        if str_upper (take 3 s) = ''NAN'' then parse_payload sg False (drop 3 s)
        else if str_upper (take 4 s) = ''SNAN'' then parse_payload sg True (drop 4 s)
        else if str_upper s = ''INF'' \<or> str_upper s = ''INFINITY'' then Some (Infinity sg)
        else parse_finite sg s)"

definition Decimal :: "string \<Rightarrow> flags \<Rightarrow> (error + decimal) \<times> flags" where
  \<comment> \<open>\<^verbatim>\<open>Decimal(s)\<close>: a conversion error sets the flag and, being trapped, raises.\<close>
  "Decimal s fl =
     (case decimal_of_string s of
        None \<Rightarrow> (Inl InvalidOperation, insert SigInvalidOperation fl)
      | Some d \<Rightarrow> (Inr d, fl))"

definition prec :: nat where
  "prec = 28"

definition round_half_even :: "nat \<Rightarrow> nat \<Rightarrow> nat" where
  \<comment> \<open>\<open>c\<close> without its last \<open>k\<close> digits, rounded to nearest, ties to the even neighbour\<close>
  "round_half_even c k =
     (let q = c div 10 ^ k; r = c mod 10 ^ k
      in if 2 * r > 10 ^ k \<or> (2 * r = 10 ^ k \<and> odd q) then q + 1 else q)"

definition quantize_cent :: "decimal \<Rightarrow> flags \<Rightarrow> (error + decimal) \<times> flags" where
  \<comment> \<open>\<^verbatim>\<open>d.quantize(Decimal('0.01'))\<close> in the default context: precision 28,
      ROUND_HALF_EVEN, InvalidOperation trapped.\<close>
  "quantize_cent d fl =
     (case d of
        NaN sg signaling p \<Rightarrow>
          if signaling then (Inl InvalidOperation, insert SigInvalidOperation fl)
          else (Inr (NaN sg False (p mod 10 ^ prec)), fl)
      | Infinity sg \<Rightarrow> (Inl InvalidOperation, insert SigInvalidOperation fl)
      | Finite sg c e \<Rightarrow>
          if c = 0 then (Inr (Finite sg 0 (- 2)), fl)
          else if int (ndigits c) + e + 2 > int prec
          then (Inl InvalidOperation, insert SigInvalidOperation fl)
          else if e \<ge> - 2 then (Inr (Finite sg (c * 10 ^ nat (e + 2)) (- 2)), fl)
          else
            let k = nat (- 2 - e);
                q = round_half_even c k
            in if ndigits q > prec then (Inl InvalidOperation, insert SigInvalidOperation fl)
               else (Inr (Finite sg q (- 2)),
                     fl \<union> {SigRounded} \<union> (if c mod 10 ^ k \<noteq> 0 then {SigInexact} else {})))"

definition str_int_signed :: "int \<Rightarrow> string" where
  \<comment> \<open>\<^verbatim>\<open>"%+d" % n\<close>\<close>
  "str_int_signed n = (if n < 0 then ''-'' @ str_nat (nat (- n)) else ''+'' @ str_nat (nat n))"

definition str_decimal :: "decimal \<Rightarrow> string" where
  \<comment> \<open>\<^verbatim>\<open>str(d)\<close>, which is also what an f-string writes for \<^verbatim>\<open>{d}\<close>\<close>
  "str_decimal d =
     (case d of
        Infinity sg \<Rightarrow> (if sg then ''-'' else '''') @ ''Infinity''
      | NaN sg signaling p \<Rightarrow>
          (if sg then ''-'' else '''') @ (if signaling then ''sNaN'' else ''NaN'')
            @ (if p = 0 then '''' else str_nat p)
      | Finite sg c e \<Rightarrow>
          let ds = str_nat c;
              leftdigits = e + int (length ds);
              dotplace = (if e \<le> 0 \<and> leftdigits > - 6 then leftdigits else 1);
              intpart = (if dotplace \<le> 0 then ''0''
                         else if dotplace \<ge> int (length ds)
                         then ds @ replicate (nat (dotplace - int (length ds))) (CHR ''0'')
                         else take (nat dotplace) ds);
              fracpart = (if dotplace \<le> 0 then ''.'' @ replicate (nat (- dotplace)) (CHR ''0'') @ ds
                          else if dotplace \<ge> int (length ds) then ''''
                          else ''.'' @ drop (nat dotplace) ds);
              expo = (if leftdigits = dotplace then ''''
                      else ''E'' @ str_int_signed (leftdigits - dotplace))
          in (if sg then ''-'' else '''') @ intpart @ fracpart @ expo)"

section \<open>The converter\<close>

type_synonym row = "string \<rightharpoonup> pyval"

type_synonym outrow = "(string \<times> pyval) list"

definition dict_get :: "('k \<rightharpoonup> 'v) \<Rightarrow> 'k \<Rightarrow> 'v \<Rightarrow> 'v" where
  \<comment> \<open>\<^verbatim>\<open>d.get(k, default)\<close>\<close>
  "dict_get d k dflt = (case d k of None \<Rightarrow> dflt | Some v \<Rightarrow> v)"

definition table_get :: "(string \<rightharpoonup> string) \<Rightarrow> string \<Rightarrow> pyval" where
  \<comment> \<open>\<^verbatim>\<open>d.get(k)\<close> on a table of strings: \<^verbatim>\<open>None\<close> for a missing key\<close>
  "table_get d k = (case d k of None \<Rightarrow> PNone | Some v \<Rightarrow> PStr v)"

definition format_price :: "pyval \<Rightarrow> flags \<Rightarrow> (error + string) \<times> flags" where
  \<comment> \<open>The \<^verbatim>\<open>except\<close> clause covers \<^verbatim>\<open>Decimal(s)\<close> only; \<^verbatim>\<open>quantize\<close> is called
      after the \<^verbatim>\<open>try\<close> block, so what it raises goes to the caller.\<close>
  "format_price val fl =
     (if val = PNone \<or> val = PStr '''' then (Inr ''$0.00'', fl)
      else
        let s = str_strip (py_str val);
            s = (if startswith s ''$'' then str_strip (drop 1 s) else s)
        in case Decimal s fl of
             (Inl e, fl') \<Rightarrow> (Inr ''$0.00'', fl')
           | (Inr d, fl') \<Rightarrow>
               (case quantize_cent d fl' of
                  (Inl e, fl'') \<Rightarrow> (Inl e, fl'')
                | (Inr q, fl'') \<Rightarrow> (Inr (''$'' @ str_decimal q), fl'')))"

definition convert_row :: "row \<Rightarrow> flags \<Rightarrow> (error + outrow) \<times> flags" where
  "convert_row old_row fl =
     (let new_row = map (\<lambda>col. (col, PStr '''')) output_columns;
          count = dict_get old_row ''Count'' (PStr '''');
          name = dict_get old_row ''Name'' (PStr '''');
          edition_code =
            str_upper (str_strip (py_or_empty (dict_get old_row ''Edition'' (PStr ''''))));
          collector_num = dict_get old_row ''Collector Number'' (PStr '''');
          condition = dict_get old_row ''Condition'' (PStr '''');
          language = dict_get old_row ''Language'' (PStr '''');
          foil = dict_get old_row ''Foil'' (PStr '''');
          tags = dict_get old_row ''Tags'' (PStr '''');
          purchase_price = dict_get old_row ''Purchase Price'' (PStr '''');
          new_row = AList.update ''Count'' count new_row;
          new_row = AList.update ''Tradelist Count'' (PStr ''0'') new_row;
          new_row = AList.update ''Name'' name new_row;
          new_row = AList.update ''Edition'' (table_get edition_map (str_upper edition_code)) new_row;
          new_row = AList.update ''Edition Code''
                      (PStr (dict_get edition_code_map edition_code edition_code)) new_row;
          new_row = AList.update ''Card Number'' collector_num new_row;
          new_row = AList.update ''Condition'' condition new_row;
          new_row = AList.update ''Language'' language new_row;
          new_row = AList.update ''Foil'' foil new_row;
          new_row = AList.update ''Signed'' (PStr '''') new_row;
          new_row = AList.update ''Artist Proof'' (PStr '''') new_row;
          new_row = AList.update ''Altered Art'' (PStr '''') new_row;
          new_row = AList.update ''Misprint'' (PStr '''') new_row;
          new_row = AList.update ''Promo'' (PStr '''') new_row;
          new_row = AList.update ''Textless'' (PStr '''') new_row;
          new_row = AList.update ''Printing Id'' (PStr '''') new_row;
          new_row = AList.update ''Printing Note'' (PStr '''') new_row;
          new_row = AList.update ''Tags'' tags new_row
      in case format_price purchase_price fl of
           (Inl e, fl') \<Rightarrow> (Inl e, fl')
         | (Inr p, fl') \<Rightarrow> (Inr (AList.update ''My Price'' (PStr p) new_row), fl'))"

section \<open>Writing the rows\<close>

text \<open>
  \<^verbatim>\<open>csv.DictWriter\<close> writes the header, then for each row the values of the field
  names in their order; the csv writer turns \<^verbatim>\<open>None\<close> into an empty field. Quoting of
  the cells is left to the csv module and is not modelled. The writer refuses a row with
  a key outside its field names; the rows of \<^verbatim>\<open>convert_row\<close> have none (lemma
  \<open>convert_row_Inr\<close>). When \<^verbatim>\<open>convert_row\<close> raises, the script stops: the lines
  written before stay in the file.
\<close>

definition csv_field :: "pyval \<Rightarrow> string" where
  "csv_field v = (case v of PNone \<Rightarrow> '''' | PStr s \<Rightarrow> s)"

definition dict_to_list :: "outrow \<Rightarrow> string list" where
  "dict_to_list rowdict =
     map (\<lambda>key. csv_field (dict_get (map_of rowdict) key (PStr ''''))) output_columns"

fun convert_loop ::
  "row list \<Rightarrow> string list list \<Rightarrow> flags \<Rightarrow> (error option \<times> string list list) \<times> flags"
where
  "convert_loop [] written fl = ((None, written), fl)"
| "convert_loop (in_row # rest) written fl =
     (case convert_row in_row fl of
        (Inl e, fl') \<Rightarrow> ((Some e, written), fl')
      | (Inr out_row, fl') \<Rightarrow> convert_loop rest (written @ [dict_to_list out_row]) fl')"

definition process_csv :: "row list \<Rightarrow> flags \<Rightarrow> (error option \<times> string list list) \<times> flags" where
  "process_csv rows fl = convert_loop rows [output_columns] fl"

section \<open>Notions used by the specification\<close>

definition edition_field :: "row \<Rightarrow> string" where
  \<comment> \<open>the text of the input \<^verbatim>\<open>Edition\<close> cell, empty when the cell is missing\<close>
  "edition_field r = py_or_empty (dict_get r ''Edition'' (PStr ''''))"

definition normalized_code :: "string \<Rightarrow> string" where
  \<comment> \<open>stripped, then uppercased\<close>
  "normalized_code s = str_upper (str_strip s)"

definition input_columns :: "string list" where
  "input_columns =
    [''Count'', ''Name'', ''Edition'', ''Collector Number'', ''Condition'', ''Language'',
     ''Foil'', ''Tags'', ''Purchase Price'']"



section \<open>Sample rows\<close>



definition ragged_row :: row where
  \<comment> \<open>a line with two unknown columns, a cell the reader filled with \<^verbatim>\<open>None\<close>, and most
      of the known columns missing\<close>
  "ragged_row =
     map_of [(''Rarity'', PStr ''Common''), (''Name'', PStr ''Shock''), (''Tags'', PNone),
             (''Last Modified'', PStr ''2024-01-01'')]"

definition shock_row :: row where
  \<comment> \<open>the same line without the unknown columns\<close>
  "shock_row = map_of [(''Name'', PStr ''Shock''), (''Tags'', PNone)]"

definition ragged_out :: outrow where
  "ragged_out =
    [(''Count'', PStr ''''), (''Tradelist Count'', PStr ''0''), (''Name'', PStr ''Shock''),
     (''Edition'', PNone), (''Edition Code'', PStr ''''),
     (''Card Number'', PStr ''''), (''Condition'', PStr ''''), (''Language'', PStr ''''),
     (''Foil'', PStr ''''), (''Signed'', PStr ''''), (''Artist Proof'', PStr ''''),
     (''Altered Art'', PStr ''''), (''Misprint'', PStr ''''), (''Promo'', PStr ''''),
     (''Textless'', PStr ''''), (''Printing Id'', PStr ''''), (''Printing Note'', PStr ''''),
     (''Tags'', PNone), (''My Price'', PStr ''$0.00'')]"

definition bolt_row :: row where
  \<comment> \<open>the line of the specification's end-to-end example\<close>
  "bolt_row =
     map_of [(''Count'', PStr ''2''), (''Name'', PStr ''Lightning Bolt''),
             (''Edition'', PStr ''mir''), (''Collector Number'', PStr ''150''),
             (''Condition'', PStr ''NM''), (''Language'', PStr ''English''),
             (''Foil'', PStr ''Foil''), (''Tags'', PStr ''''),
             (''Purchase Price'', PStr ''$1.25'')]"

definition infinity_row :: row where
  "infinity_row = map_of [(''Name'', PStr ''Shock''), (''Purchase Price'', PStr ''Infinity'')]"

section \<open>The price format\<close>

definition price_text :: "pyval \<Rightarrow> string" where
  \<comment> \<open>the text that \<^verbatim>\<open>format_price\<close> hands to \<^verbatim>\<open>Decimal\<close>\<close>
  "price_text v =
     (let s = str_strip (py_str v)
      in if startswith s ''$'' then str_strip (drop 1 s) else s)"

definition money_format :: "string \<Rightarrow> bool" where
  \<comment> \<open>a dollar sign, an optional minus sign, at least one digit, a point, exactly two
      digits\<close>
  "money_format s \<longleftrightarrow>
     (case s of
        [] \<Rightarrow> False
      | c # r \<Rightarrow>
          c = CHR ''$'' \<and>
          (let u = (if take 1 r = ''-'' then drop 1 r else r);
               ip = takeWhile is_digit u;
               rest = dropWhile is_digit u
           in ip \<noteq> [] \<and>
              (case rest of
                 [] \<Rightarrow> False
               | p # fp \<Rightarrow> p = CHR ''.'' \<and> length fp = 2 \<and> list_all is_digit fp)))"

section \<open>What \<^verbatim>\<open>convert_row\<close> returns\<close>

text \<open>
  The nineteen assignments of \<^verbatim>\<open>convert_row\<close>, carried out: the row it returns when
  \<^verbatim>\<open>format_price\<close> returns, and the exception it lets through otherwise.
\<close>

lemma convert_row_unfold:
  "convert_row r fl =
     (case format_price (dict_get r ''Purchase Price'' (PStr '''')) fl of
        (Inl e, fl') \<Rightarrow> (Inl e, fl')
      | (Inr p, fl') \<Rightarrow>
          (Inr [(''Count'', dict_get r ''Count'' (PStr '''')),
                (''Tradelist Count'', PStr ''0''),
                (''Name'', dict_get r ''Name'' (PStr '''')),
                (''Edition'',
                   table_get edition_map (str_upper (normalized_code (edition_field r)))),
                (''Edition Code'',
                   PStr (dict_get edition_code_map (normalized_code (edition_field r))
                           (normalized_code (edition_field r)))),
                (''Card Number'', dict_get r ''Collector Number'' (PStr '''')),
                (''Condition'', dict_get r ''Condition'' (PStr '''')),
                (''Language'', dict_get r ''Language'' (PStr '''')),
                (''Foil'', dict_get r ''Foil'' (PStr '''')),
                (''Signed'', PStr ''''),
                (''Artist Proof'', PStr ''''),
                (''Altered Art'', PStr ''''),
                (''Misprint'', PStr ''''),
                (''Promo'', PStr ''''),
                (''Textless'', PStr ''''),
                (''Printing Id'', PStr ''''),
                (''Printing Note'', PStr ''''),
                (''Tags'', dict_get r ''Tags'' (PStr '''')),
                (''My Price'', PStr p)], fl'))"
  by (simp add: convert_row_def output_columns_def normalized_code_def edition_field_def Let_def
           split: prod.splits sum.splits)

lemma convert_row_Inr:
  assumes "fst (convert_row r fl) = Inr out"
  obtains p where
    "fst (format_price (dict_get r ''Purchase Price'' (PStr '''')) fl) = Inr p"
    "out = [(''Count'', dict_get r ''Count'' (PStr '''')),
            (''Tradelist Count'', PStr ''0''),
            (''Name'', dict_get r ''Name'' (PStr '''')),
            (''Edition'',
               table_get edition_map (str_upper (normalized_code (edition_field r)))),
            (''Edition Code'',
               PStr (dict_get edition_code_map (normalized_code (edition_field r))
                       (normalized_code (edition_field r)))),
            (''Card Number'', dict_get r ''Collector Number'' (PStr '''')),
            (''Condition'', dict_get r ''Condition'' (PStr '''')),
            (''Language'', dict_get r ''Language'' (PStr '''')),
            (''Foil'', dict_get r ''Foil'' (PStr '''')),
            (''Signed'', PStr ''''),
            (''Artist Proof'', PStr ''''),
            (''Altered Art'', PStr ''''),
            (''Misprint'', PStr ''''),
            (''Promo'', PStr ''''),
            (''Textless'', PStr ''''),
            (''Printing Id'', PStr ''''),
            (''Printing Note'', PStr ''''),
            (''Tags'', dict_get r ''Tags'' (PStr '''')),
            (''My Price'', PStr p)]"
  using assms unfolding convert_row_unfold
  by (auto split: prod.splits sum.splits)




lemma ragged_row_converts: "fst (convert_row ragged_row fl) = Inr ragged_out"
  by code_simp




section \<open>The edition columns\<close>






section \<open>The shape of the output row\<close>

text \<open>
  Claim C6. In every row that \<^verbatim>\<open>convert_row\<close> returns, \<^verbatim>\<open>Tradelist Count\<close> is the
  string \<^verbatim>\<open>0\<close> and the eight columns Signed, Artist Proof, Altered Art, Misprint, Promo,
  Textless, Printing Id and Printing Note are the empty string.
\<close>

theorem constant_fields:
  assumes "fst (convert_row r fl) = Inr out"
  shows "map_of out ''Tradelist Count'' = Some (PStr ''0'')
       \<and> map_of out ''Signed'' = Some (PStr '''')
       \<and> map_of out ''Artist Proof'' = Some (PStr '''')
       \<and> map_of out ''Altered Art'' = Some (PStr '''')
       \<and> map_of out ''Misprint'' = Some (PStr '''')
       \<and> map_of out ''Promo'' = Some (PStr '''')
       \<and> map_of out ''Textless'' = Some (PStr '''')
       \<and> map_of out ''Printing Id'' = Some (PStr '''')
       \<and> map_of out ''Printing Note'' = Some (PStr '''')"
  using assms by (elim convert_row_Inr) simp

theorem constant_fields_witness:
  "fst (convert_row ragged_row {}) = Inr ragged_out
 \<and> map_of ragged_out ''Tradelist Count'' = Some (PStr ''0'')
 \<and> map_of ragged_out ''Signed'' = Some (PStr '''')
 \<and> map_of ragged_out ''Printing Note'' = Some (PStr '''')"
  using constant_fields [OF ragged_row_converts [of "{}"]] ragged_row_converts [of "{}"]
  by simp

text \<open>
  Claim C7. Every row that \<^verbatim>\<open>convert_row\<close> returns has exactly the nineteen output
  columns as its keys, each once, in the order of \<^verbatim>\<open>output_columns\<close>, whatever columns
  the input row has or lacks.
\<close>

theorem output_columns_exact:
  assumes "fst (convert_row r fl) = Inr out"
  shows "map fst out =
           [''Count'', ''Tradelist Count'', ''Name'', ''Edition'', ''Edition Code'',
            ''Card Number'', ''Condition'', ''Language'', ''Foil'', ''Signed'',
            ''Artist Proof'', ''Altered Art'', ''Misprint'', ''Promo'', ''Textless'',
            ''Printing Id'', ''Printing Note'', ''Tags'', ''My Price'']
       \<and> map fst out = output_columns \<and> length out = 19 \<and> distinct (map fst out)"
  using assms by (elim convert_row_Inr) (simp add: output_columns_def)

theorem output_columns_exact_witness:
  "fst (convert_row ragged_row {}) = Inr ragged_out
 \<and> ragged_row ''Rarity'' = Some (PStr ''Common'')
 \<and> ragged_row ''Count'' = None
 \<and> map fst ragged_out = output_columns
 \<and> length ragged_out = 19
 \<and> distinct (map fst ragged_out)"
proof -
  have extra: "ragged_row ''Rarity'' = Some (PStr ''Common'')" by code_simp
  have missing: "ragged_row ''Count'' = None" by code_simp
  show ?thesis
    using output_columns_exact [OF ragged_row_converts [of "{}"]] ragged_row_converts [of "{}"]
    by (simp add: extra missing output_columns_def)
qed

section \<open>Determinism\<close>





text \<open>
  Claim C10. Two input rows that agree on the nine keys \<^verbatim>\<open>convert_row\<close> reads (the same
  value, or both without the key) are converted alike: the same row, or the same exception,
  and the same flags, whatever else the rows hold.
\<close>

theorem recognized_keys_only:
  assumes "\<forall>k \<in> set input_columns. r1 k = r2 k"
  shows "convert_row r1 fl = convert_row r2 fl"
proof -
  have g: "dict_get r1 k d = dict_get r2 k d" if "k \<in> set input_columns" for k d
    using assms that by (simp add: dict_get_def)
  have eqs:
    "dict_get r1 ''Count'' d = dict_get r2 ''Count'' d"
    "dict_get r1 ''Name'' d = dict_get r2 ''Name'' d"
    "dict_get r1 ''Edition'' d = dict_get r2 ''Edition'' d"
    "dict_get r1 ''Collector Number'' d = dict_get r2 ''Collector Number'' d"
    "dict_get r1 ''Condition'' d = dict_get r2 ''Condition'' d"
    "dict_get r1 ''Language'' d = dict_get r2 ''Language'' d"
    "dict_get r1 ''Foil'' d = dict_get r2 ''Foil'' d"
    "dict_get r1 ''Tags'' d = dict_get r2 ''Tags'' d"
    "dict_get r1 ''Purchase Price'' d = dict_get r2 ''Purchase Price'' d" for d
    by (rule g, simp add: input_columns_def)+
  have ed: "edition_field r1 = edition_field r2"
    by (simp only: edition_field_def eqs)
  show ?thesis
    by (simp only: convert_row_unfold eqs ed)
qed

theorem recognized_keys_only_witness:
  "list_all (\<lambda>k. ragged_row k = shock_row k) input_columns
 \<and> ragged_row ''Rarity'' \<noteq> shock_row ''Rarity''
 \<and> convert_row ragged_row {} = convert_row shock_row {}"
proof -
  have agree: "\<forall>k \<in> set input_columns. ragged_row k = shock_row k"
    by (simp add: input_columns_def ragged_row_def shock_row_def)
  have differ: "ragged_row ''Rarity'' \<noteq> shock_row ''Rarity''"
    by (simp add: ragged_row_def shock_row_def)
  show ?thesis
    using recognized_keys_only [OF agree, of "{}"] agree differ
    by (simp add: list_all_iff)
qed

section \<open>Case and whitespace of the edition cell\<close>
















section \<open>The end-to-end example\<close>

text \<open>
  Claim C8. For the row Count 2, Name Lightning Bolt, Edition mir, Collector Number 150,
  Condition NM, Language English, Foil Foil, Tags empty, Purchase Price $1.25,
  \<^verbatim>\<open>convert_row\<close> returns, in the order of the output columns, 2, 0, Lightning Bolt,
  Mirage, MI, 150, NM, English, Foil, eight empty strings, the empty Tags and $1.25; and
  the conversion of that one line writes the header and these nineteen fields.
\<close>

theorem lightning_bolt_row:
  "fst (convert_row bolt_row fl) =
     Inr (zip output_columns
            (map PStr [''2'', ''0'', ''Lightning Bolt'', ''Mirage'', ''MI'', ''150'', ''NM'',
                       ''English'', ''Foil'', '''', '''', '''', '''', '''', '''', '''', '''',
                       '''', ''$1.25'']))
 \<and> fst (process_csv [bolt_row] fl) =
     (None, [output_columns,
             [''2'', ''0'', ''Lightning Bolt'', ''Mirage'', ''MI'', ''150'', ''NM'',
              ''English'', ''Foil'', '''', '''', '''', '''', '''', '''', '''', '''',
              '''', ''$1.25'']])"
  by code_simp

section \<open>The price column\<close>

lemma format_price_cases:
  "fst (format_price v fl) =
     (if v = PNone \<or> v = PStr '''' then Inr ''$0.00''
      else case decimal_of_string (price_text v) of
             None \<Rightarrow> Inr ''$0.00''
           | Some d \<Rightarrow>
               (case fst (quantize_cent d fl) of
                  Inl e \<Rightarrow> Inl e
                | Inr q \<Rightarrow> Inr (''$'' @ str_decimal q)))"
  by (simp add: format_price_def price_text_def Decimal_def Let_def
           split: option.splits prod.splits sum.splits)

lemma is_digit_digit_char: "is_digit (digit_char d)"
proof -
  have "d mod 10 < length decimal_digits" by (simp add: decimal_digits_def)
  then show ?thesis unfolding is_digit_def digit_char_def by (rule nth_mem)
qed

lemma str_nat_digits: "list_all is_digit (str_nat n)"
proof (induction n rule: str_nat.induct)
  case (1 n)
  show ?case
  proof (cases "n < 10")
    case True
    then show ?thesis by (subst str_nat.simps) (simp add: is_digit_digit_char)
  next
    case False
    with 1 show ?thesis by (subst str_nat.simps) (simp add: is_digit_digit_char)
  qed
qed

lemma str_nat_nonempty: "str_nat n \<noteq> []"
  by (subst str_nat.simps) simp

lemma not_digit_point: "\<not> is_digit (CHR ''.'')"
  by code_simp

lemma not_digit_minus: "\<not> is_digit (CHR ''-'')"
  by code_simp

lemma is_digit_zero: "is_digit (CHR ''0'')"
  by code_simp

lemma money_formatI:
  assumes "ip \<noteq> []" "list_all is_digit ip" "length fp = 2" "list_all is_digit fp"
  shows "money_format (''$'' @ (if sg then ''-'' else '''') @ ip @ ''.'' @ fp)"
proof -
  define w where "w = ip @ ''.'' @ fp"
  from assms(1) obtain a ip' where ip: "ip = a # ip'" by (cases ip) auto
  with assms(2) have "is_digit a" by simp
  then have a: "a \<noteq> CHR ''-''" using not_digit_minus by auto
  have hd: "take (Suc 0) w = [a]" by (simp add: w_def ip)
  have tw: "takeWhile is_digit w = ip"
    unfolding w_def using assms(2) not_digit_point
    by (simp add: takeWhile_append2 list_all_iff)
  have dw: "dropWhile is_digit w = CHR ''.'' # fp"
    unfolding w_def using assms(2) not_digit_point
    by (simp add: dropWhile_append2 list_all_iff)
  have neg: "money_format (CHR ''$'' # CHR ''-'' # w)"
    by (simp add: money_format_def Let_def tw dw assms)
  have pos: "money_format (CHR ''$'' # w)"
    by (simp add: money_format_def Let_def hd a tw dw assms)
  show ?thesis
    using neg pos by (cases sg) (simp_all add: w_def)
qed

lemma str_decimal_cents:
  "\<exists>ip fp. str_decimal (Finite sg n (- 2)) = (if sg then ''-'' else '''') @ ip @ ''.'' @ fp
     \<and> ip \<noteq> [] \<and> list_all is_digit ip \<and> length fp = 2 \<and> list_all is_digit fp"
proof -
  let ?ds = "str_nat n"
  have ne: "?ds \<noteq> []" by (rule str_nat_nonempty)
  have dg: "list_all is_digit ?ds" by (rule str_nat_digits)
  show ?thesis
  proof (cases "length ?ds \<le> 2")
    case True
    have "str_decimal (Finite sg n (- 2)) =
            (if sg then ''-'' else '''') @ ''0'' @ ''.'' @ (replicate (2 - length ?ds) (CHR ''0'') @ ?ds)"
      using True ne by (simp add: str_decimal_def Let_def nat_diff_distrib')
    moreover have "length (replicate (2 - length ?ds) (CHR ''0'') @ ?ds) = 2"
      using True by simp
    moreover have "list_all is_digit (replicate (2 - length ?ds) (CHR ''0'') @ ?ds)"
      using dg is_digit_zero by (auto simp: list_all_iff)
    moreover have "list_all is_digit ''0''" using is_digit_zero by simp
    ultimately show ?thesis by blast
  next
    case False
    then have "str_decimal (Finite sg n (- 2)) =
            (if sg then ''-'' else '''') @ take (length ?ds - 2) ?ds @ ''.'' @ drop (length ?ds - 2) ?ds"
      by (simp add: str_decimal_def Let_def nat_diff_distrib')
    moreover have "take (length ?ds - 2) ?ds \<noteq> []" using False ne by simp
    moreover have "length (drop (length ?ds - 2) ?ds) = 2" using False by simp
    moreover have "list_all is_digit (take (length ?ds - 2) ?ds)"
      using dg by (auto simp: list_all_iff dest: in_set_takeD)
    moreover have "list_all is_digit (drop (length ?ds - 2) ?ds)"
      using dg by (auto simp: list_all_iff dest: in_set_dropD)
    ultimately show ?thesis by blast
  qed
qed

lemma money_format_cents: "money_format (''$'' @ str_decimal (Finite sg n (- 2)))"
proof -
  obtain ip fp where
    "str_decimal (Finite sg n (- 2)) = (if sg then ''-'' else '''') @ ip @ ''.'' @ fp"
    "ip \<noteq> []" "list_all is_digit ip" "length fp = 2" "list_all is_digit fp"
    using str_decimal_cents by blast
  then show ?thesis using money_formatI [of ip fp sg] by simp
qed

lemma quantize_cent_finite:
  assumes "fst (quantize_cent (Finite sg c e) fl) = Inr q"
  shows "\<exists>n. q = Finite sg n (- 2)"
  using assms by (auto simp: quantize_cent_def Let_def split: if_splits)

lemma quantize_cent_infinity: "fst (quantize_cent (Infinity sg) fl) = Inl InvalidOperation"
  by (simp add: quantize_cent_def)

lemma money_format_default: "money_format ''$0.00''"
  by code_simp

lemma format_price_money_unless_nan:
  assumes "fst (format_price v fl) = Inr s"
      and "\<And>sg signaling p. decimal_of_string (price_text v) \<noteq> Some (NaN sg signaling p)"
  shows "money_format s"
proof (cases "v = PNone \<or> v = PStr ''''")
  case True
  with assms(1) show ?thesis by (auto simp: format_price_cases money_format_default)
next
  case False
  show ?thesis
  proof (cases "decimal_of_string (price_text v)")
    case None
    with False assms(1) show ?thesis by (auto simp: format_price_cases money_format_default)
  next
    case (Some d)
    show ?thesis
    proof (cases d)
      case (Finite sg c e)
      with Some False assms(1) obtain q where
        q: "fst (quantize_cent (Finite sg c e) fl) = Inr q" and s: "s = ''$'' @ str_decimal q"
        by (auto simp: format_price_cases split: sum.splits)
      from q obtain n where "q = Finite sg n (- 2)" using quantize_cent_finite by blast
      with s show ?thesis by (simp only: money_format_cents)
    next
      case (Infinity sg)
      with Some False assms(1) show ?thesis
        by (simp add: format_price_cases quantize_cent_infinity)
    next
      case (NaN sg signaling p)
      with Some assms(2) show ?thesis by blast
    qed
  qed
qed

lemma not_money_nan: "\<not> money_format ''$NaN''"
  by code_simp

lemma format_price_table:
  "fst (format_price (PStr '''') fl) = Inr ''$0.00''"
  "fst (format_price PNone fl) = Inr ''$0.00''"
  "fst (format_price (PStr ''$3.5'') fl) = Inr ''$3.50''"
  "fst (format_price (PStr ''abc'') fl) = Inr ''$0.00''"
  "fst (format_price (PStr ''3.005'') fl) = Inr ''$3.00''"
  "fst (format_price (PStr ''3.015'') fl) = Inr ''$3.02''"
  by code_simp+

text \<open>
  Claim C2 does not hold of the code. The text \<^verbatim>\<open>Infinity\<close> is a valid decimal, so the
  \<^verbatim>\<open>try\<close> block is left without an exception; \<^verbatim>\<open>quantize\<close>, which stands after the
  block, then raises \<^verbatim>\<open>InvalidOperation\<close>. The exception leaves \<^verbatim>\<open>format_price\<close> and
  \<^verbatim>\<open>convert_row\<close>, and the conversion stops with nothing but the header written.
\<close>

theorem format_price_raises_on_infinity:
  "fst (format_price (PStr ''Infinity'') fl) = Inl InvalidOperation
 \<and> fst (convert_row infinity_row fl) = Inl InvalidOperation
 \<and> fst (process_csv [infinity_row] fl) = (Some InvalidOperation, [output_columns])"
  by code_simp

text \<open>
  Claim C3 does not hold of the code. The five values of its table are right (lemma
  \<open>format_price_table\<close>), and every result for a finite decimal has the money format
  (lemma \<open>format_price_money_unless_nan\<close>); but the text \<^verbatim>\<open>NaN\<close> is a valid decimal
  that \<^verbatim>\<open>quantize\<close> hands back unchanged, and the result is \<^verbatim>\<open>$NaN\<close>, which has no
  fractional digits.
\<close>

theorem format_price_nan_passes_through:
  "fst (format_price (PStr ''NaN'') fl) = Inr ''$NaN'' \<and> \<not> money_format ''$NaN''"
proof -
  have s: "str_strip (py_str (PStr ''NaN'')) = ''NaN''" by code_simp
  have nd: "\<not> startswith ''NaN'' ''$''" by code_simp
  have d: "decimal_of_string ''NaN'' = Some (NaN False False 0)" by code_simp
  have q: "quantize_cent (NaN False False 0) fl = (Inr (NaN False False 0), fl)"
    by (simp add: quantize_cent_def)
  have st: "str_decimal (NaN False False 0) = ''NaN''" by code_simp
  have "fst (format_price (PStr ''NaN'') fl) = Inr ''$NaN''"
    by (simp add: format_price_def Let_def s nd Decimal_def d q st)
  then show ?thesis using not_money_nan by simp
qed

end
